theory Spec2Isabelle
  imports Complex_Main "HOL-Library.Log_Nat"
begin

section \<open>Python values, exceptions and outcomes\<close>

text \<open>
  The module \<^verbatim>\<open>src/pacman/pac.py\<close> defines one class, \<^verbatim>\<open>Pac\<close>. Its methods mutate the
  fields of \<^verbatim>\<open>self\<close>, call into the package engine (pyalpm) and push events on a queue
  shared with the user interface. The model passes the object state explicitly and returns
  how the call ended together with the state it left behind.

  Python integers are unbounded: \<^typ>\<open>int\<close>. A Python float is a binary64 number; it is
  modelled by its value, a rational. An integer and a float compare by value in Python
  (\<^verbatim>\<open>1 == 1.0\<close>), which is why both are \<open>Num\<close>; a string never equals a number.
\<close>

datatype py_exc =
    NameError           \<comment> \<open>a global name that is not bound\<close>
  | ZeroDivisionError
  | OverflowError
  | TypeError
  | ValueError
  | AlpmError           \<comment> \<open>\<^verbatim>\<open>pyalpm.error\<close>, the engine-level error\<close>
  | OtherError string   \<comment> \<open>any exception that is not a \<^verbatim>\<open>pyalpm.error\<close>\<close>

datatype 's outcome =
    Return 's           \<comment> \<open>the call returned; the state it left\<close>
  | Raise py_exc 's     \<comment> \<open>an exception left the call\<close>
  | Exit int 's         \<comment> \<open>\<^verbatim>\<open>sys.exit(code)\<close>\<close>

fun and_then :: "'s outcome \<Rightarrow> ('s \<Rightarrow> 's outcome) \<Rightarrow> 's outcome" where
  "and_then (Return s) f = f s"
| "and_then (Raise e s) f = Raise e s"
| "and_then (Exit c s) f = Exit c s"

fun state_of :: "'s outcome \<Rightarrow> 's" where
  "state_of (Return s) = s"
| "state_of (Raise e s) = s"
| "state_of (Exit c s) = s"

fun exception_of :: "'s outcome \<Rightarrow> py_exc option" where
  "exception_of (Return s) = None"
| "exception_of (Raise e s) = Some e"
| "exception_of (Exit c s) = None"

subsection \<open>The quotient \<^verbatim>\<open>a / b\<close> of two integers\<close>

text \<open>
  Python divides two integers into the binary64 number nearest to the exact quotient, ties
  to the even mantissa. With \<open>e\<close> the binary exponent of the quotient (not below the least
  normal exponent \<open>-1022\<close>), the result is a multiple of \<open>pow2 (e - 52)\<close>. Division by zero
  raises \<^verbatim>\<open>ZeroDivisionError\<close>; a result that rounds to \<open>pow2 1024\<close> or beyond raises
  \<^verbatim>\<open>OverflowError\<close>. The binary exponent of \<open>a / b\<close> is the difference \<open>k\<close> of the bit
  lengths of \<open>a\<close> and \<open>b\<close>, or \<open>k - 1\<close>.
\<close>

definition pow2 :: "int \<Rightarrow> rat" where
  "pow2 k = (if 0 \<le> k then 2 ^ nat k else 1 / 2 ^ nat (- k))"

definition round_half_even :: "rat \<Rightarrow> int" where
  "round_half_even y =
     (let f = \<lfloor>y\<rfloor>; d = y - of_int f
      in if d < 1 / 2 then f else if 1 / 2 < d then f + 1 else if even f then f else f + 1)"

definition truediv :: "int \<Rightarrow> int \<Rightarrow> py_exc + rat" where
  "truediv a b =
     (if b = 0 then Inl ZeroDivisionError
      else if a = 0 then Inr 0
      else
        (let x = of_int a / of_int b;
             k = bitlen \<bar>a\<bar> - bitlen \<bar>b\<bar>;
             e = (if pow2 k \<le> \<bar>x\<bar> then k else k - 1);
             ulp = pow2 (max e (- 1022) - 52);
             r = of_int (round_half_even (x / ulp)) * ulp
         in if pow2 1024 \<le> \<bar>r\<bar> then Inl OverflowError else Inr r))"

text \<open>The code object of a caller, as \<^verbatim>\<open>inspect.currentframe().f_back.f_code\<close> gives it.\<close>

record code =
  co_name :: string
  co_filename :: string
  co_firstlineno :: int

text \<open>
  The second component of an event. \<open>Located t name file line\<close> stands for the string
  \<^verbatim>\<open>"%s: %s in %s:%i" % (t, name, file, line)\<close> that \<^verbatim>\<open>queue_event\<close> builds for an error
  event, kept as the values it is built from.
\<close>

datatype pytext =
    Str string
  | Num rat
  | Located pytext string string int

type_synonym event = "string \<times> pytext"

subsection \<open>Decimal output of \<^verbatim>\<open>%d\<close>\<close>

fun digits :: "nat \<Rightarrow> string" where
  "digits n =
     (if n < 10 then [''0123456789'' ! n]
      else digits (n div 10) @ [''0123456789'' ! (n mod 10)])"

declare digits.simps [simp del]

definition str_int :: "int \<Rightarrow> string" where
  "str_int k = (if k < 0 then CHR ''-'' # digits (nat (- k)) else digits (nat k))"

section \<open>The callback queue\<close>

text \<open>
  The queue is handed to \<^verbatim>\<open>Pac.__init__\<close> by the caller; the module uses its
  \<^verbatim>\<open>put_nowait\<close> and \<^verbatim>\<open>join\<close>. It is modelled with its capacity (\<open>maxsize \<le> 0\<close>: no bound),
  the events waiting in it and the events the consumer has already taken out, so that the
  stream of delivered events is \<open>taken @ items\<close>.
\<close>

record cqueue =
  maxsize :: int
  items :: "event list"
  taken :: "event list"

definition delivered :: "cqueue \<Rightarrow> event list" where
  "delivered q = taken q @ items q"

definition full :: "cqueue \<Rightarrow> bool" where
  "full q = (0 < maxsize q \<and> maxsize q \<le> int (length (items q)))"

text \<open>\<^verbatim>\<open>put_nowait\<close>: \<open>None\<close> is \<^verbatim>\<open>queue.Full\<close>.\<close>

definition put_nowait :: "cqueue \<Rightarrow> event \<Rightarrow> cqueue option" where
  "put_nowait q e = (if full q then None else Some (q\<lparr>items := items q @ [e]\<rparr>))"

text \<open>The queue after a put whose \<^verbatim>\<open>queue.Full\<close> is ignored.\<close>

definition offer :: "cqueue \<Rightarrow> event \<Rightarrow> cqueue" where
  "offer q e = (if full q then q else q\<lparr>items := items q @ [e]\<rparr>)"

text \<open>The consumer takes the oldest waiting event and marks it done.\<close>

definition get_done :: "cqueue \<Rightarrow> cqueue" where
  "get_done q =
     (case items q of
        [] \<Rightarrow> q
      | e # es \<Rightarrow> q\<lparr>items := es, taken := taken q @ [e]\<rparr>)"

text \<open>
  \<^verbatim>\<open>join\<close> returns once the consumer has taken every waiting event: when it returns, the
  queue is empty and everything that was waiting has been taken.
\<close>

definition join :: "cqueue \<Rightarrow> cqueue" where
  "join q = q\<lparr>items := [], taken := taken q @ items q\<rparr>"

section \<open>The state of a \<^verbatim>\<open>Pac\<close> object\<close>

text \<open>
  The fields \<^verbatim>\<open>__init__\<close> sets and a method below reads. \<open>emit_log\<close> is a history variable
  the program does not have: the arguments of every call of \<^verbatim>\<open>queue_event\<close>, in order,
  whether or not the call put anything on the queue.
\<close>

record pac =
  last_target :: "string option"
  last_percent :: int
  last_i :: int
  last_dl_filename :: "string option"
  last_dl_progress :: "int option"
  last_dl_total :: "int option"
  last_event :: "string \<rightharpoonup> pytext"
  callback_queue :: cqueue
  emit_log :: "event list"

definition init :: "cqueue \<Rightarrow> pac" where
  "init q =
     \<lparr> last_target = None, last_percent = 100, last_i = - 1,
       last_dl_filename = None, last_dl_progress = None, last_dl_total = None,
       last_event = Map.empty, callback_queue = q, emit_log = [] \<rparr>"

section \<open>\<^verbatim>\<open>queue_event\<close>\<close>

text \<open>
  \<open>caller\<close> is the code object of the calling frame, which the error text names.
\<close>

definition queue_event :: "pac \<Rightarrow> code \<Rightarrow> string \<Rightarrow> pytext \<Rightarrow> pac outcome" where
  "queue_event self caller event_type event_text =
     (let s0 = self\<lparr>emit_log := emit_log self @ [(event_type, event_text)]\<rparr> in
      if (case last_event s0 event_type of
            Some old \<Rightarrow> old = event_text
          | None \<Rightarrow> False)
      then Return s0
      else
        let s1 = s0\<lparr>last_event := (last_event s0)(event_type \<mapsto> event_text)\<rparr>;
            pushed =
              (if event_type = ''error''
               then Located event_text (co_name caller) (co_filename caller)
                      (co_firstlineno caller)
               else event_text);
            s2 = (case put_nowait (callback_queue s1) (event_type, pushed) of
                    Some q \<Rightarrow> s1\<lparr>callback_queue := q\<rparr>
                  | None \<Rightarrow> s1)
        in if event_type = ''error''
           then Exit 1 (s2\<lparr>callback_queue := join (callback_queue s2)\<rparr>)
           else Return s2)"

section \<open>Progress and download callbacks\<close>

text \<open>
  \<^verbatim>\<open>_\<close> is gettext's lookup, installed by the application; with no catalogue it returns
  its argument, and that is how it is modelled. The callbacks are methods of this module,
  so the frame that calls \<^verbatim>\<open>queue_event\<close> is theirs.
\<close>

definition frame :: "string \<Rightarrow> int \<Rightarrow> code" where
  "frame name line = \<lparr> co_name = name, co_filename = ''pac.py'', co_firstlineno = line \<rparr>"

definition cb_progress :: "pac \<Rightarrow> string \<Rightarrow> int \<Rightarrow> int \<Rightarrow> int \<Rightarrow> pac outcome" where
  "cb_progress self target percent n i =
     (let c = frame ''cb_progress'' 275 in
      and_then
        (if length target = 0 then
           and_then
             (if percent < last_percent self \<or> i < last_i self then
                and_then
                  (queue_event self c ''info''
                     (Str (''Progress ('' @ str_int n @ '' targets)'')))
                  (\<lambda>s. Return (s\<lparr>last_i := 0\<rparr>))
              else Return self)
             (\<lambda>s. and_then
                (queue_event s c ''target'' (Str ''Checking and loading packages...''))
                (\<lambda>s. and_then
                   (case truediv percent 100 of
                      Inl e \<Rightarrow> Raise e s
                    | Inr x \<Rightarrow> queue_event s c ''percent'' (Num x))
                   (\<lambda>s. Return (s\<lparr>last_i := i\<rparr>))))
         else if Some target \<noteq> last_target self \<or> percent < last_percent self then
           and_then
             (queue_event (self\<lparr>last_target := Some target, last_percent := 0\<rparr>) c ''target''
                (Str (''Installing '' @ target @ '' ('' @ str_int i @ ''/'' @ str_int n @ '')'')))
             (\<lambda>s. and_then
                (case truediv percent 100 of
                   Inl e \<Rightarrow> Raise e s
                 | Inr x \<Rightarrow> queue_event s c ''percent'' (Num x))
                (\<lambda>s. case truediv i n of
                        Inl e \<Rightarrow> Raise e s
                      | Inr g \<Rightarrow> queue_event s c ''global_percent'' (Num g)))
         else Return self)
        (\<lambda>s. Return (s\<lparr>last_percent := percent\<rparr>)))"

text \<open>
  The progress indicator of a download. When the total is unknown the source computes
  \<^verbatim>\<open>int(math.log(1 + tx / 1024) ** 2 / 2)\<close>: the quotient \<^verbatim>\<open>tx / 1024\<close> may raise
  \<^verbatim>\<open>OverflowError\<close>, \<^verbatim>\<open>math.log\<close> raises \<^verbatim>\<open>ValueError\<close> when its argument is not positive
  (the sum is not positive exactly when the quotient is at most \<open>-1\<close>), and the value
  computed otherwise is the parameter \<open>log_scale tx\<close>.
\<close>

definition dl_progress :: "(int \<Rightarrow> int) \<Rightarrow> int \<Rightarrow> int \<Rightarrow> py_exc + int" where
  "dl_progress log_scale tx tot =
     (if tot > 0 then Inr ((tx * 25) div tot)
      else
        (case truediv tx 1024 of
           Inl e \<Rightarrow> Inl e
         | Inr f \<Rightarrow> if 1 + f \<le> 0 then Inl ValueError else Inr (log_scale tx)))"

definition dl_text :: "string \<Rightarrow> int \<Rightarrow> int \<Rightarrow> pytext" where
  "dl_text filename tx tot =
     Str (''Download '' @ filename @ '': '' @ str_int tx @ ''/'' @ str_int tot)"

definition cb_dl :: "(int \<Rightarrow> int) \<Rightarrow> pac \<Rightarrow> string \<Rightarrow> int \<Rightarrow> int \<Rightarrow> pac outcome" where
  "cb_dl log_scale self filename tx tot =
     (let c = frame ''cb_dl'' 296 in
      and_then
        (if Some filename \<noteq> last_dl_filename self \<or> last_dl_total self \<noteq> Some tot then
           queue_event
             (self\<lparr>last_dl_filename := Some filename, last_dl_total := Some tot,
                   last_dl_progress := Some 0\<rparr>)
             c ''action'' (dl_text filename tx tot)
         else Return self)
        (\<lambda>s. case last_dl_total s of
                None \<Rightarrow> Raise TypeError s
              | Some t \<Rightarrow>
                 (case dl_progress log_scale tx t of
                    Inl e \<Rightarrow> Raise e s
                  | Inr progress \<Rightarrow>
                     (case last_dl_progress s of
                        None \<Rightarrow> Raise TypeError s
                      | Some l \<Rightarrow>
                         if progress > l then
                           and_then
                             (queue_event (s\<lparr>last_dl_progress := Some progress\<rparr>) c ''action''
                                (dl_text filename tx tot))
                             (\<lambda>s. queue_event s c ''percent'' (Num (of_int progress)))
                         else Return s))))"

text \<open>
  A state in which a file name is recorded only together with a progress value; every
  state that calls of \<^verbatim>\<open>cb_dl\<close> reach from the initial one is such a state.
\<close>

definition dl_wf :: "pac \<Rightarrow> bool" where
  "dl_wf s = (last_dl_filename s = None \<or> last_dl_progress s \<noteq> None)"

section \<open>Runs of the producer against the consumer\<close>

text \<open>
  A run interleaves calls of \<^verbatim>\<open>queue_event\<close> with the consumer taking events out of the
  queue. The run ends where a call does not return.
\<close>

datatype step = Emit code string pytext | Consume

fun run :: "pac \<Rightarrow> step list \<Rightarrow> pac outcome" where
  "run s [] = Return s"
| "run s (Emit c ty tx # steps) =
     (case queue_event s c ty tx of
        Return s' \<Rightarrow> run s' steps
      | Raise e s' \<Rightarrow> Raise e s'
      | Exit k s' \<Rightarrow> Exit k s')"
| "run s (Consume # steps) = run (s\<lparr>callback_queue := get_done (callback_queue s)\<rparr>) steps"

text \<open>No call of the run finds the queue full when it has an event to put.\<close>

fun no_drop :: "pac \<Rightarrow> step list \<Rightarrow> bool" where
  "no_drop s [] = True"
| "no_drop s (Emit c ty tx # steps) =
     ((last_event s ty = Some tx \<or> \<not> full (callback_queue s)) \<and>
      (case queue_event s c ty tx of
         Return s' \<Rightarrow> no_drop s' steps
       | Raise e s' \<Rightarrow> True
       | Exit k s' \<Rightarrow> True))"
| "no_drop s (Consume # steps) =
     no_drop (s\<lparr>callback_queue := get_done (callback_queue s)\<rparr>) steps"

text \<open>Among the events of one type, no two neighbours carry the same text.\<close>

definition no_repeat :: "string \<Rightarrow> event list \<Rightarrow> bool" where
  "no_repeat ty evs = distinct_adj (map snd (filter (\<lambda>e. fst e = ty) evs))"

text \<open>
  The text of the last delivered event of a type, and the link between the delivered stream
  and the dictionary \<^verbatim>\<open>last_event\<close> that a run from the initial state keeps: the last
  delivered text of a type is the text recorded for it, and no error event has been
  delivered while the producer is still running.
\<close>

definition last_text :: "string \<Rightarrow> event list \<Rightarrow> pytext option" where
  "last_text ty evs =
     (if filter (\<lambda>e. fst e = ty) evs = [] then None
      else Some (snd (last (filter (\<lambda>e. fst e = ty) evs))))"

definition dedup_inv :: "pac \<Rightarrow> bool" where
  "dedup_inv s =
     (\<forall>ty tx. last_text ty (delivered (callback_queue s)) = Some tx
        \<longrightarrow> ty \<noteq> ''error'' \<and> last_event s ty = Some tx)"

section \<open>The package engine\<close>

text \<open>
  What the module uses of pyalpm: a handle with its sync databases, each answering
  \<^verbatim>\<open>get_pkg\<close> and \<^verbatim>\<open>read_grp\<close>, and transactions with \<^verbatim>\<open>add_pkg\<close>, \<^verbatim>\<open>prepare\<close>, \<^verbatim>\<open>commit\<close> and
  \<^verbatim>\<open>release\<close>. How the engine answers is data of the model (which exception, if any, a call
  raises); every call made to the engine is appended to a log, which is how a theorem says
  that a call was made, how often, and in which order.
\<close>

datatype 'a result = Ok 'a | Err py_exc

record package =
  pkg_name :: string
  pkg_db :: string

record syncdb =
  db_name :: string
  db_pkgs :: "(string \<times> package) list"
  db_grps :: "(string \<times> package list) list"

datatype tcall = AddPkg package | Prepare | Commit | Release

record trans =
  prepare_exc :: "py_exc option"
  commit_exc :: "py_exc option"
  release_exc :: "py_exc option"
  t_calls :: "tcall list"

datatype hcall = GetSyncdbs | GetPkg string string | ReadGrp string string | InitTransaction

record handle =
  syncdbs :: "syncdb list"
  init_exc :: "py_exc option"
  fresh :: trans
  h_calls :: "hcall list"

text \<open>A method of a transaction: the exception it raises, if any, and the transaction after.\<close>

definition prepare :: "trans \<Rightarrow> py_exc option \<times> trans" where
  "prepare t = (prepare_exc t, t\<lparr>t_calls := t_calls t @ [Prepare]\<rparr>)"

definition commit :: "trans \<Rightarrow> py_exc option \<times> trans" where
  "commit t = (commit_exc t, t\<lparr>t_calls := t_calls t @ [Commit]\<rparr>)"

definition release :: "trans \<Rightarrow> py_exc option \<times> trans" where
  "release t = (release_exc t, t\<lparr>t_calls := t_calls t @ [Release]\<rparr>)"

definition add_pkg :: "trans \<Rightarrow> package \<Rightarrow> trans" where
  "add_pkg t pkg = t\<lparr>t_calls := t_calls t @ [AddPkg pkg]\<rparr>"

section \<open>\<^verbatim>\<open>finalize\<close>\<close>

text \<open>
  The \<^verbatim>\<open>try\<close> block runs \<^verbatim>\<open>prepare\<close> and, if that returns, \<^verbatim>\<open>commit\<close>. The handler catches
  \<^verbatim>\<open>pyalpm.error\<close> only; any other exception leaves \<^verbatim>\<open>finalize\<close> at once. The traceback
  the handler prints is not part of the model.
\<close>

definition finalize :: "trans \<Rightarrow> bool result \<times> trans" where
  "finalize t =
     (case (case prepare t of
              (Some e, t1) \<Rightarrow> (Some e, t1)
            | (None, t1) \<Rightarrow> commit t1) of
        (Some e, t2) \<Rightarrow>
          if e = AlpmError then
            (case release t2 of
               (Some e', t3) \<Rightarrow> (Err e', t3)
             | (None, t3) \<Rightarrow> (Ok False, t3))
          else (Err e, t2)
      | (None, t2) \<Rightarrow>
          (case release t2 of
             (Some e', t3) \<Rightarrow> (Err e', t3)
           | (None, t3) \<Rightarrow> (Ok True, t3)))"

section \<open>\<^verbatim>\<open>do_install\<close> and its helpers\<close>

text \<open>
  \<^verbatim>\<open>init_transaction\<close> sets the callbacks on \<^verbatim>\<open>self.handle\<close> and asks the engine for a
  transaction; the flags it derives from \<^verbatim>\<open>options\<close> are not part of the model.
\<close>

definition init_transaction :: "handle \<Rightarrow> (py_exc + trans) \<times> handle" where
  "init_transaction h =
     (let h' = h\<lparr>h_calls := h_calls h @ [InitTransaction]\<rparr> in
      case init_exc h of
        Some e \<Rightarrow> (Inl e, h')
      | None \<Rightarrow> (Inr (fresh h), h'))"

text \<open>
  A Python dictionary built from pairs: a key keeps the place of its first insertion and
  the value of its last.
\<close>

definition dict_set :: "(string \<times> 'v) list \<Rightarrow> string \<Rightarrow> 'v \<Rightarrow> (string \<times> 'v) list" where
  "dict_set d k v =
     (if k \<in> fst ` set d then map (\<lambda>(k', v'). if k' = k then (k', v) else (k', v')) d
      else d @ [(k, v)])"

definition dict_of :: "(string \<times> 'v) list \<Rightarrow> (string \<times> 'v) list" where
  "dict_of kvs = foldl (\<lambda>d (k, v). dict_set d k v) [] kvs"

text \<open>
  \<^verbatim>\<open>find_sync_package\<close> over the values of the dictionary: the package, or the message of
  the miss; with the engine calls it made.
\<close>

fun find_sync_package :: "string \<Rightarrow> syncdb list \<Rightarrow> (string + package) \<times> hcall list" where
  "find_sync_package pkgname [] =
     (Inl (''package '' @ [CHR 0x27] @ pkgname @ [CHR 0x27] @ '' was not found''), [])"
| "find_sync_package pkgname (db # dbs) =
     (case map_of (db_pkgs db) pkgname of
        Some pkg \<Rightarrow> (Inr pkg, [GetPkg (db_name db) pkgname])
      | None \<Rightarrow>
          (case find_sync_package pkgname dbs of
             (r, calls) \<Rightarrow> (r, GetPkg (db_name db) pkgname # calls)))"

text \<open>
  The module reads two different names for the engine: the attribute \<^verbatim>\<open>self.handle\<close> and
  the global name \<^verbatim>\<open>handle\<close>. The binding of the global name is a parameter of the functions
  that read it, \<open>None\<close> when the name is not bound. No statement of the module binds it: the
  module's global names are its imports (\<^verbatim>\<open>traceback\<close>, \<^verbatim>\<open>sys\<close>, \<^verbatim>\<open>locale\<close>, \<^verbatim>\<open>gettext\<close>,
  \<^verbatim>\<open>math\<close>, \<^verbatim>\<open>logging\<close>, \<^verbatim>\<open>Queue\<close>, \<^verbatim>\<open>queue\<close>, \<^verbatim>\<open>pyalpm\<close>, \<^verbatim>\<open>config\<close>) and the class \<^verbatim>\<open>Pac\<close>.
\<close>

definition module_handle :: "handle option" where
  "module_handle = None"

fun read_groups :: "string \<Rightarrow> syncdb list \<Rightarrow> package list option \<times> hcall list" where
  "read_groups grp [] = (None, [])"
| "read_groups grp (repo # repos) =
     (case map_of (db_grps repo) grp of
        Some pkgs \<Rightarrow> (Some pkgs, [ReadGrp (db_name repo) grp])
      | None \<Rightarrow>
          (case read_groups grp repos of
             (r, calls) \<Rightarrow> (r, ReadGrp (db_name repo) grp # calls)))"

definition get_group_pkgs ::
  "handle option \<Rightarrow> string \<Rightarrow> package list option result \<times> handle option" where
  "get_group_pkgs g grp =
     (case g of
        None \<Rightarrow> (Err NameError, None)
      | Some h \<Rightarrow>
          (case read_groups grp (syncdbs h) of
             (r, calls) \<Rightarrow> (Ok r, Some (h\<lparr>h_calls := h_calls h @ GetSyncdbs # calls\<rparr>))))"

text \<open>The loop over the requested names, with the targets accumulated so far.\<close>

fun resolve ::
  "handle option \<Rightarrow> (string \<times> syncdb) list \<Rightarrow> string list \<Rightarrow> string list \<Rightarrow> package list
   \<Rightarrow> package list result \<times> handle option" where
  "resolve g repos [] conflicts targets = (Ok targets, g)"
| "resolve g repos (name # names) conflicts targets =
     (case find_sync_package name (map snd repos) of
        (Inr pkg, calls) \<Rightarrow>
          resolve (map_option (\<lambda>h. h\<lparr>h_calls := h_calls h @ calls\<rparr>) g) repos names conflicts
            (targets @ [pkg])
      | (Inl msg, calls) \<Rightarrow>
          (case get_group_pkgs (map_option (\<lambda>h. h\<lparr>h_calls := h_calls h @ calls\<rparr>) g) name of
             (Err e, g') \<Rightarrow> (Err e, g')
           | (Ok (Some group_pkgs), g') \<Rightarrow>
               resolve g' repos names conflicts
                 (targets @ filter (\<lambda>pkg. pkg_name pkg \<notin> set conflicts) group_pkgs)
           | (Ok None, g') \<Rightarrow> resolve g' repos names conflicts targets))"

text \<open>
  \<^verbatim>\<open>do_install\<close>: the exit code or the exception, the engine behind the global name and
  behind \<^verbatim>\<open>self.handle\<close> after the call, and the transaction if one was opened.
\<close>

definition do_install ::
  "handle option \<Rightarrow> handle \<Rightarrow> string list \<Rightarrow> string list
   \<Rightarrow> int result \<times> handle option \<times> handle \<times> trans option" where
  "do_install g self_handle pkgs conflicts =
     (if length pkgs = 0 then (Ok 1, g, self_handle, None)
      else
        (case g of
           None \<Rightarrow> (Err NameError, g, self_handle, None)
         | Some h \<Rightarrow>
             (let g1 = Some (h\<lparr>h_calls := h_calls h @ [GetSyncdbs]\<rparr>);
                  repos = dict_of (map (\<lambda>db. (db_name db, db)) (syncdbs h))
              in (case resolve g1 repos pkgs conflicts [] of
                    (Err e, g2) \<Rightarrow> (Err e, g2, self_handle, None)
                  | (Ok targets, g2) \<Rightarrow>
                      (if length targets = 0 then (Ok 1, g2, self_handle, None)
                       else
                         (case init_transaction self_handle of
                            (Inl e, sh) \<Rightarrow> (Err e, g2, sh, None)
                          | (Inr t, sh) \<Rightarrow>
                              (case finalize (foldl add_pkg t targets) of
                                 (Ok ok, t') \<Rightarrow> (Ok (if ok then 0 else 1), g2, sh, Some t')
                               | (Err e, t') \<Rightarrow> (Err e, g2, sh, Some t'))))))))"

section \<open>An engine to run the functions on\<close>

text \<open>
  One sync database, \<^verbatim>\<open>core\<close>, with the packages A, B and C and the group \<^verbatim>\<open>basegroup\<close> of
  all three; its transactions prepare, commit and release without error.
\<close>

definition pkgA :: package where "pkgA = \<lparr>pkg_name = ''A'', pkg_db = ''core''\<rparr>"
definition pkgB :: package where "pkgB = \<lparr>pkg_name = ''B'', pkg_db = ''core''\<rparr>"
definition pkgC :: package where "pkgC = \<lparr>pkg_name = ''C'', pkg_db = ''core''\<rparr>"

definition core_db :: syncdb where
  "core_db = \<lparr>db_name = ''core'',
              db_pkgs = [(''A'', pkgA), (''B'', pkgB), (''C'', pkgC)],
              db_grps = [(''basegroup'', [pkgA, pkgB, pkgC])]\<rparr>"

definition quiet_trans :: trans where
  "quiet_trans = \<lparr>prepare_exc = None, commit_exc = None, release_exc = None, t_calls = []\<rparr>"

definition core_handle :: handle where
  "core_handle = \<lparr>syncdbs = [core_db], init_exc = None, fresh = quiet_trans, h_calls = []\<rparr>"

section \<open>Download progress is bounded and monotone\<close>

lemma scaled_bounds:
  fixes tx tot :: int
  assumes "0 < tot" "0 \<le> tx" "tx \<le> tot"
  shows "0 \<le> (tx * 25) div tot" and "(tx * 25) div tot \<le> 25"
proof -
  show "0 \<le> (tx * 25) div tot"
    using assms by (simp add: pos_imp_zdiv_nonneg_iff)
  have "tx * 25 \<le> 25 * tot" using assms by simp
  then have "(tx * 25) div tot \<le> (25 * tot) div tot"
    using assms(1) by (intro zdiv_mono1) simp_all
  then show "(tx * 25) div tot \<le> 25" using assms(1) by simp
qed

lemma scaled_mono:
  fixes tx tx' tot :: int
  assumes "0 < tot" "tx \<le> tx'"
  shows "(tx * 25) div tot \<le> (tx' * 25) div tot"
  using assms by (intro zdiv_mono1) simp_all

text \<open>
  C7. For \<open>total > 0\<close> and \<open>0 \<le> tx \<le> total\<close> the progress computed by \<^verbatim>\<open>cb_dl\<close> is
  \<open>\<lfloor>tx * 25 / total\<rfloor>\<close>, it lies between 0 and 25, and with the total fixed it does not
  decrease when the transferred amount grows.
\<close>

theorem dl_progress_bounded_monotone:
  assumes "0 < tot" "0 \<le> tx" "tx \<le> tot"
  shows "dl_progress log_scale tx tot = Inr \<lfloor>(of_int tx * 25 / of_int tot :: rat)\<rfloor>
       \<and> (\<exists>p. dl_progress log_scale tx tot = Inr p \<and> 0 \<le> p \<and> p \<le> 25)
       \<and> (\<forall>tx' p p'. tx \<le> tx' \<and> tx' \<le> tot
             \<and> dl_progress log_scale tx tot = Inr p
             \<and> dl_progress log_scale tx' tot = Inr p' \<longrightarrow> p \<le> p')"
proof -
  have eq: "\<And>x. dl_progress log_scale x tot = Inr ((x * 25) div tot)"
    using assms(1) by (simp add: dl_progress_def)
  have "\<lfloor>(of_int tx * 25 / of_int tot :: rat)\<rfloor> = (tx * 25) div tot"
  proof -
    have "(of_int tx * 25 / of_int tot :: rat) = of_int (tx * 25) / of_int tot"
      by simp
    then show ?thesis by (simp only: floor_divide_of_int_eq)
  qed
  moreover have "0 \<le> (tx * 25) div tot \<and> (tx * 25) div tot \<le> 25"
    using scaled_bounds [OF assms] by simp
  moreover have "\<And>tx'. tx \<le> tx' \<Longrightarrow> (tx * 25) div tot \<le> (tx' * 25) div tot"
    using scaled_mono [OF assms(1)] by simp
  ultimately show ?thesis by (simp add: eq)
qed

theorem dl_progress_bounded_monotone_witness:
  "(0::int) < 40 \<and> (0::int) \<le> 10 \<and> (10::int) \<le> 40
   \<and> dl_progress (\<lambda>x. 0) 10 40 = Inr 6
   \<and> dl_progress (\<lambda>x. 0) 27 40 = Inr 16
   \<and> (6::int) \<le> 16"
  using dl_progress_bounded_monotone [of 40 10 "\<lambda>x. 0"]
  by (simp add: dl_progress_def)


section \<open>What one call of \<^verbatim>\<open>queue_event\<close> does\<close>


lemma queue_event_repeat:
  "last_event s ty = Some tx \<Longrightarrow>
   queue_event s c ty tx = Return (s\<lparr>emit_log := emit_log s @ [(ty, tx)]\<rparr>)"
  by (simp add: queue_event_def)

lemma queue_event_plain:
  "ty \<noteq> ''error'' \<Longrightarrow> last_event s ty \<noteq> Some tx \<Longrightarrow>
   queue_event s c ty tx =
     Return (s\<lparr>emit_log := emit_log s @ [(ty, tx)],
              last_event := (last_event s)(ty \<mapsto> tx),
              callback_queue :=
                (if full (callback_queue s) then callback_queue s
                 else (callback_queue s)\<lparr>items := items (callback_queue s) @ [(ty, tx)]\<rparr>)\<rparr>)"
  by (cases "last_event s ty") (simp_all add: queue_event_def put_nowait_def Let_def)

lemma queue_event_error:
  "last_event s ''error'' \<noteq> Some tx \<Longrightarrow>
   queue_event s c ''error'' tx =
     Exit 1 (s\<lparr>emit_log := emit_log s @ [(''error'', tx)],
              last_event := (last_event s)(''error'' \<mapsto> tx),
              callback_queue :=
                join (if full (callback_queue s) then callback_queue s
                      else (callback_queue s)\<lparr>items := items (callback_queue s) @
                        [(''error'', Located tx (co_name c) (co_filename c) (co_firstlineno c))]\<rparr>)\<rparr>)"
  by (cases "last_event s ''error''") (simp_all add: queue_event_def put_nowait_def Let_def)

lemma last_text_snoc:
  "last_text ty (evs @ [(ty', tx)]) = (if ty' = ty then Some tx else last_text ty evs)"
  by (simp add: last_text_def)

lemma no_repeat_snoc:
  "no_repeat ty (evs @ [(ty', tx)]) =
     (no_repeat ty evs \<and> (ty' = ty \<longrightarrow> last_text ty evs \<noteq> Some tx))"
  by (auto simp: no_repeat_def last_text_def distinct_adj_append_iff last_map)

lemma delivered_get_done: "delivered (get_done q) = delivered q"
  by (simp add: delivered_def get_done_def split: list.splits)

lemma delivered_join: "delivered (join q) = delivered q"
  by (simp add: delivered_def join_def)

lemma delivered_put:
  "delivered (q\<lparr>items := items q @ [e]\<rparr>) = delivered q @ [e]"
  by (simp add: delivered_def)

lemma run_no_repeat:
  "dedup_inv s \<Longrightarrow> (\<forall>ty. no_repeat ty (delivered (callback_queue s))) \<Longrightarrow> no_drop s steps
   \<Longrightarrow> no_repeat ty (delivered (callback_queue (state_of (run s steps))))"
proof (induction steps arbitrary: s)
  case Nil
  then show ?case by simp
next
  case (Cons st steps)
  show ?case
  proof (cases st)
    case Consume
    let ?s = "s\<lparr>callback_queue := get_done (callback_queue s)\<rparr>"
    have "dedup_inv ?s" using Cons.prems(1) by (simp add: dedup_inv_def delivered_get_done)
    moreover have "\<forall>ty. no_repeat ty (delivered (callback_queue ?s))"
      using Cons.prems(2) by (simp add: delivered_get_done)
    moreover have "no_drop ?s steps" using Cons.prems(3) Consume by simp
    ultimately show ?thesis using Cons.IH Consume by simp
  next
    case (Emit c ety etx)
    show ?thesis
    proof (cases "last_event s ety = Some etx")
      case True
      let ?s = "s\<lparr>emit_log := emit_log s @ [(ety, etx)]\<rparr>"
      have q: "queue_event s c ety etx = Return ?s" by (rule queue_event_repeat [OF True])
      have "dedup_inv ?s" using Cons.prems(1) by (simp add: dedup_inv_def)
      moreover have "\<forall>ty. no_repeat ty (delivered (callback_queue ?s))"
        using Cons.prems(2) by simp
      moreover have "no_drop ?s steps" using Cons.prems(3) Emit q by simp
      ultimately show ?thesis using Cons.IH Emit q by simp
    next
      case False
      then have room: "\<not> full (callback_queue s)" using Cons.prems(3) Emit by simp
      have fresh: "last_text ety (delivered (callback_queue s)) \<noteq> Some etx"
        using Cons.prems(1) False by (auto simp: dedup_inv_def)
      show ?thesis
      proof (cases "ety = ''error''")
        case True
        have none: "last_text ''error'' (delivered (callback_queue s)) = None"
          using Cons.prems(1) by (cases "last_text ''error'' (delivered (callback_queue s))")
            (auto simp: dedup_inv_def)
        show ?thesis
          using Cons.prems(2) none Emit True room queue_event_error [of s etx c] False
          by (auto simp: delivered_join delivered_put no_repeat_snoc)
      next
        case ne: False
        let ?s = "s\<lparr>emit_log := emit_log s @ [(ety, etx)],
              last_event := (last_event s)(ety \<mapsto> etx),
              callback_queue := (callback_queue s)\<lparr>items := items (callback_queue s) @ [(ety, etx)]\<rparr>\<rparr>"
        have q: "queue_event s c ety etx = Return ?s"
          using queue_event_plain [OF ne False, of c] room by simp
        have "dedup_inv ?s" using Cons.prems(1) ne
          by (auto simp: dedup_inv_def delivered_put last_text_snoc split: if_splits)
        moreover have "\<forall>ty. no_repeat ty (delivered (callback_queue ?s))"
          using Cons.prems(2) fresh by (simp add: delivered_put no_repeat_snoc)
        moreover have "no_drop ?s steps" using Cons.prems(3) Emit q by simp
        ultimately show ?thesis using Cons.IH Emit q by simp
      qed
    qed
  qed
qed

lemma init_inv:
  "delivered q = [] \<Longrightarrow> dedup_inv (init q) \<and> (\<forall>ty. no_repeat ty (delivered (callback_queue (init q))))"
  by (simp add: dedup_inv_def init_def last_text_def no_repeat_def)


section \<open>Event deduplication\<close>

text \<open>
  C1, as the code has it. If the text last recorded for the type is the text of the call,
  \<^verbatim>\<open>queue_event\<close> returns and leaves queue and dictionary as they were. Otherwise, for a type
  other than \<^verbatim>\<open>error\<close>, it records the text and hands (type, text) to \<^verbatim>\<open>put_nowait\<close>, which
  appends it unless the queue is full; an identical call right after puts nothing, so the
  two calls together deliver exactly one event when the queue had room. In a run from the
  initial state on an empty queue in which no put finds the queue full, no two
  neighbouring delivered events of one type carry the same text.
\<close>

theorem queue_event_dedup:
  "(last_event s ty = Some tx \<longrightarrow>
      (\<exists>s'. queue_event s c ty tx = Return s'
         \<and> callback_queue s' = callback_queue s \<and> last_event s' = last_event s))
   \<and> (last_event s ty \<noteq> Some tx \<and> ty \<noteq> ''error'' \<longrightarrow>
      (\<exists>s' s''. queue_event s c ty tx = Return s'
         \<and> last_event s' = (last_event s)(ty \<mapsto> tx)
         \<and> callback_queue s' =
             (if full (callback_queue s) then callback_queue s
              else (callback_queue s)\<lparr>items := items (callback_queue s) @ [(ty, tx)]\<rparr>)
         \<and> queue_event s' c' ty tx = Return s''
         \<and> callback_queue s'' = callback_queue s'
         \<and> (\<not> full (callback_queue s) \<longrightarrow>
              delivered (callback_queue s'') = delivered (callback_queue s) @ [(ty, tx)])))
   \<and> (delivered q = [] \<and> no_drop (init q) steps \<longrightarrow>
        no_repeat ty' (delivered (callback_queue (state_of (run (init q) steps)))))"
proof (intro conjI impI)
  assume "last_event s ty = Some tx"
  from queue_event_repeat [OF this, of c]
  show "\<exists>s'. queue_event s c ty tx = Return s'
         \<and> callback_queue s' = callback_queue s \<and> last_event s' = last_event s"
    by simp
next
  assume a: "last_event s ty \<noteq> Some tx \<and> ty \<noteq> ''error''"
  let ?s' = "s\<lparr>emit_log := emit_log s @ [(ty, tx)],
              last_event := (last_event s)(ty \<mapsto> tx),
              callback_queue :=
                (if full (callback_queue s) then callback_queue s
                 else (callback_queue s)\<lparr>items := items (callback_queue s) @ [(ty, tx)]\<rparr>)\<rparr>"
  have 1: "queue_event s c ty tx = Return ?s'"
    using a by (simp add: queue_event_plain)
  have "last_event ?s' ty = Some tx" by simp
  from queue_event_repeat [OF this, of c']
  have 2: "queue_event ?s' c' ty tx = Return (?s'\<lparr>emit_log := emit_log ?s' @ [(ty, tx)]\<rparr>)" .
  show "\<exists>s' s''. queue_event s c ty tx = Return s'
         \<and> last_event s' = (last_event s)(ty \<mapsto> tx)
         \<and> callback_queue s' =
             (if full (callback_queue s) then callback_queue s
              else (callback_queue s)\<lparr>items := items (callback_queue s) @ [(ty, tx)]\<rparr>)
         \<and> queue_event s' c' ty tx = Return s''
         \<and> callback_queue s'' = callback_queue s'
         \<and> (\<not> full (callback_queue s) \<longrightarrow>
              delivered (callback_queue s'') = delivered (callback_queue s) @ [(ty, tx)])"
    apply (rule exI [of _ ?s'])
    apply (rule exI [of _ "?s'\<lparr>emit_log := emit_log ?s' @ [(ty, tx)]\<rparr>"])
    using 1 2 by (simp add: delivered_put)
next
  assume a: "delivered q = [] \<and> no_drop (init q) steps"
  then have "dedup_inv (init q)" and "\<forall>ty. no_repeat ty (delivered (callback_queue (init q)))"
    using init_inv [of q] by simp_all
  then show "no_repeat ty' (delivered (callback_queue (state_of (run (init q) steps))))"
    using a by (intro run_no_repeat) simp_all
qed

theorem queue_event_dedup_witness:
  "last_event (init \<lparr>maxsize = 2, items = [], taken = []\<rparr>) ''info'' \<noteq> Some (Str ''a'')
   \<and> ''info'' \<noteq> ''error''
   \<and> \<not> full (callback_queue (init \<lparr>maxsize = 2, items = [], taken = []\<rparr>))
   \<and> delivered (callback_queue (state_of (queue_event
        (state_of (queue_event (init \<lparr>maxsize = 2, items = [], taken = []\<rparr>)
           (frame ''f'' 1) ''info'' (Str ''a'')))
        (frame ''f'' 1) ''info'' (Str ''a'')))) = [(''info'', Str ''a'')]
   \<and> last_event ((init \<lparr>maxsize = 2, items = [], taken = []\<rparr>)
         \<lparr>last_event := [''info'' \<mapsto> Str ''a'']\<rparr>) ''info'' = Some (Str ''a'')
   \<and> callback_queue (state_of (queue_event
        ((init \<lparr>maxsize = 2, items = [], taken = []\<rparr>)\<lparr>last_event := [''info'' \<mapsto> Str ''a'']\<rparr>)
        (frame ''f'' 1) ''info'' (Str ''a''))) = \<lparr>maxsize = 2, items = [], taken = []\<rparr>
   \<and> delivered \<lparr>maxsize = 2, items = [], taken = []\<rparr> = []
   \<and> no_drop (init \<lparr>maxsize = 2, items = [], taken = []\<rparr>)
        [Emit (frame ''f'' 1) ''info'' (Str ''a''), Emit (frame ''f'' 1) ''info'' (Str ''a''),
         Consume, Emit (frame ''f'' 1) ''info'' (Str ''b''),
         Emit (frame ''f'' 1) ''info'' (Str ''a'')]
   \<and> no_repeat ''info'' (delivered (callback_queue (state_of (run
        (init \<lparr>maxsize = 2, items = [], taken = []\<rparr>)
        [Emit (frame ''f'' 1) ''info'' (Str ''a''), Emit (frame ''f'' 1) ''info'' (Str ''a''),
         Consume, Emit (frame ''f'' 1) ''info'' (Str ''b''),
         Emit (frame ''f'' 1) ''info'' (Str ''a'')]))))
   \<and> delivered (callback_queue (state_of (run
        (init \<lparr>maxsize = 2, items = [], taken = []\<rparr>)
        [Emit (frame ''f'' 1) ''info'' (Str ''a''), Emit (frame ''f'' 1) ''info'' (Str ''a''),
         Consume, Emit (frame ''f'' 1) ''info'' (Str ''b''),
         Emit (frame ''f'' 1) ''info'' (Str ''a'')])))
      = [(''info'', Str ''a''), (''info'', Str ''b''), (''info'', Str ''a'')]"
  using queue_event_dedup [of "init \<lparr>maxsize = 2, items = [], taken = []\<rparr>" "''info''" "Str ''a''"
          "frame ''f'' 1" "frame ''f'' 1" "\<lparr>maxsize = 2, items = [], taken = []\<rparr>"
          "[Emit (frame ''f'' 1) ''info'' (Str ''a''), Emit (frame ''f'' 1) ''info'' (Str ''a''),
            Consume, Emit (frame ''f'' 1) ''info'' (Str ''b''),
            Emit (frame ''f'' 1) ''info'' (Str ''a'')]" "''info''"]
        queue_event_dedup [of "(init \<lparr>maxsize = 2, items = [], taken = []\<rparr>)\<lparr>last_event := [''info'' \<mapsto> Str ''a'']\<rparr>"
          "''info''" "Str ''a''" "frame ''f'' 1"]
  by (simp add: init_def queue_event_def put_nowait_def full_def delivered_def get_done_def
        no_repeat_def frame_def)

theorem queue_event_twice_counterexample:
  "delivered (callback_queue (state_of (queue_event
     (state_of (queue_event (init \<lparr>maxsize = 1, items = [(''info'', Str ''a'')], taken = []\<rparr>)
        (frame ''f'' 1) ''target'' (Str ''b'')))
     (frame ''f'' 1) ''target'' (Str ''b'')))) = [(''info'', Str ''a'')]"
  by (simp add: init_def queue_event_def put_nowait_def full_def delivered_def)


section \<open>A dropped event is not retried\<close>

text \<open>
  C10. The text is recorded before the put is tried. When the queue is full the event is
  dropped, yet it stays recorded as the last text of its type, so an identical call right
  after puts nothing, whatever the queue holds by then.
\<close>

theorem dropped_event_not_retried:
  assumes "full (callback_queue s)" and "last_event s ty \<noteq> Some tx"
  shows "last_event (state_of (queue_event s c ty tx)) ty = Some tx
       \<and> delivered (callback_queue (state_of (queue_event s c ty tx)))
           = delivered (callback_queue s)
       \<and> (\<forall>q. \<exists>s''. queue_event ((state_of (queue_event s c ty tx))\<lparr>callback_queue := q\<rparr>)
                        c' ty tx = Return s''
                \<and> callback_queue s'' = q)"
proof (cases "ty = ''error''")
  case True
  then show ?thesis
    using assms queue_event_error [of s tx c]
    by (simp add: delivered_join queue_event_repeat)
next
  case False
  then show ?thesis
    using assms queue_event_plain [of ty s tx c]
    by (simp add: queue_event_repeat)
qed

theorem dropped_event_not_retried_witness:
  "full (callback_queue (init \<lparr>maxsize = 1, items = [(''info'', Str ''a'')], taken = []\<rparr>))
   \<and> last_event (init \<lparr>maxsize = 1, items = [(''info'', Str ''a'')], taken = []\<rparr>) ''target''
       \<noteq> Some (Str ''b'')
   \<and> delivered (callback_queue (state_of (queue_event
        (init \<lparr>maxsize = 1, items = [(''info'', Str ''a'')], taken = []\<rparr>)
        (frame ''f'' 1) ''target'' (Str ''b'')))) = [(''info'', Str ''a'')]
   \<and> callback_queue (state_of (queue_event
        ((state_of (queue_event
            (init \<lparr>maxsize = 1, items = [(''info'', Str ''a'')], taken = []\<rparr>)
            (frame ''f'' 1) ''target'' (Str ''b'')))
         \<lparr>callback_queue := \<lparr>maxsize = 1, items = [], taken = [(''info'', Str ''a'')]\<rparr>\<rparr>)
        (frame ''f'' 1) ''target'' (Str ''b'')))
      = \<lparr>maxsize = 1, items = [], taken = [(''info'', Str ''a'')]\<rparr>"
  using dropped_event_not_retried
          [of "init \<lparr>maxsize = 1, items = [(''info'', Str ''a'')], taken = []\<rparr>"
              "''target''" "Str ''b''" "frame ''f'' 1" "frame ''f'' 1"]
  by (simp add: init_def queue_event_def put_nowait_def full_def delivered_def)

section \<open>The fatal event\<close>

text \<open>
  A call with type \<^verbatim>\<open>error\<close> whose text is not the one last recorded for \<^verbatim>\<open>error\<close>
  records the text, waits until the queue is drained and exits with status 1; when the
  queue had room, the error event, its text extended with the caller's name and place, was
  put before the wait and is the last event delivered.
\<close>

lemma queue_event_error_exits:
  assumes "last_event s ''error'' \<noteq> Some tx"
  shows "\<exists>s'. queue_event s c ''error'' tx = Exit 1 s'
           \<and> items (callback_queue s') = []
           \<and> last_event s' = (last_event s)(''error'' \<mapsto> tx)
           \<and> (\<not> full (callback_queue s) \<longrightarrow>
                taken (callback_queue s') = delivered (callback_queue s) @
                  [(''error'', Located tx (co_name c) (co_filename c) (co_firstlineno c))])"
  using queue_event_error [OF assms, of c]
  by (simp add: join_def delivered_def)

text \<open>
  C2. A new object whose queue of capacity 1 holds one event: the call with type \<^verbatim>\<open>error\<close>
  records the text, finds the queue full and drops the event, then waits until the queue is
  drained and exits with status 1. The consumer has taken the event that was waiting and
  nothing else: the error event was never put.
\<close>

theorem queue_event_error_dropped:
  "queue_event (init \<lparr>maxsize = 1, items = [(''info'', Str ''a'')], taken = []\<rparr>)
     (frame ''run'' 10) ''error'' (Str ''boom'')
   = Exit 1 ((init \<lparr>maxsize = 1, items = [], taken = [(''info'', Str ''a'')]\<rparr>)
               \<lparr>last_event := [''error'' \<mapsto> Str ''boom''],
                 emit_log := [(''error'', Str ''boom'')]\<rparr>)"
  by (simp add: init_def queue_event_def put_nowait_def full_def join_def)

section \<open>\<^verbatim>\<open>finalize\<close> releases the transaction once\<close>

text \<open>
  C3. When \<^verbatim>\<open>prepare\<close> and \<^verbatim>\<open>commit\<close> each either return or raise the engine's error,
  \<^verbatim>\<open>finalize\<close> calls \<^verbatim>\<open>prepare\<close>, then \<^verbatim>\<open>commit\<close> if \<^verbatim>\<open>prepare\<close> returned, then \<^verbatim>\<open>release\<close>, and
  nothing else: \<^verbatim>\<open>release\<close> is called exactly once on either path. Its result is \<open>True\<close>
  when both returned and \<open>False\<close> when one raised the engine's error (an exception raised by
  \<^verbatim>\<open>release\<close> itself leaves \<^verbatim>\<open>finalize\<close>).
\<close>

theorem finalize_releases_once:
  assumes "prepare_exc t = None \<or> prepare_exc t = Some AlpmError"
      and "commit_exc t = None \<or> commit_exc t = Some AlpmError"
  shows "\<exists>calls. t_calls (snd (finalize t)) = t_calls t @ calls
           \<and> calls = (if prepare_exc t = None then [Prepare, Commit, Release]
                      else [Prepare, Release])
           \<and> count_list calls Release = 1
           \<and> fst (finalize t) =
               (case release_exc t of
                  None \<Rightarrow> Ok (prepare_exc t = None \<and> commit_exc t = None)
                | Some e \<Rightarrow> Err e)"
  using assms
  by (auto simp: finalize_def prepare_def commit_def release_def split: option.splits)

theorem finalize_releases_once_witness:
  "finalize quiet_trans =
     (Ok True, quiet_trans\<lparr>t_calls := [Prepare, Commit, Release]\<rparr>)
   \<and> finalize (quiet_trans\<lparr>commit_exc := Some AlpmError\<rparr>) =
     (Ok False, quiet_trans\<lparr>commit_exc := Some AlpmError, t_calls := [Prepare, Commit, Release]\<rparr>)
   \<and> finalize (quiet_trans\<lparr>prepare_exc := Some AlpmError\<rparr>) =
     (Ok False, quiet_trans\<lparr>prepare_exc := Some AlpmError, t_calls := [Prepare, Release]\<rparr>)"
  using finalize_releases_once [of quiet_trans]
        finalize_releases_once [of "quiet_trans\<lparr>commit_exc := Some AlpmError\<rparr>"]
        finalize_releases_once [of "quiet_trans\<lparr>prepare_exc := Some AlpmError\<rparr>"]
  by (simp add: quiet_trans_def finalize_def prepare_def commit_def release_def)

section \<open>\<^verbatim>\<open>do_install\<close>\<close>

text \<open>
  C4. With an empty list of names \<^verbatim>\<open>do_install\<close> returns 1; it makes no call to the engine
  behind either name and opens no transaction.
\<close>

theorem do_install_empty:
  "do_install g self_handle [] conflicts = (Ok 1, g, self_handle, None)"
  by (simp add: do_install_def)

text \<open>
  C9. With a list of names that is not empty, \<^verbatim>\<open>do_install\<close> ends in a \<^verbatim>\<open>NameError\<close> at
  the first reading of the global name \<^verbatim>\<open>handle\<close>: no call reaches the engine, no
  transaction is opened and the result is never an exit code. \<^verbatim>\<open>get_group_pkgs\<close> reads the
  same name and ends the same way.
\<close>

theorem do_install_name_error:
  assumes "pkgs \<noteq> []"
  shows "do_install module_handle self_handle pkgs conflicts
           = (Err NameError, None, self_handle, None)
       \<and> get_group_pkgs module_handle grp = (Err NameError, None)"
  using assms by (simp add: do_install_def get_group_pkgs_def module_handle_def)

theorem do_install_name_error_witness:
  "[''base''] \<noteq> []
   \<and> do_install module_handle core_handle [''base''] [] = (Err NameError, None, core_handle, None)
   \<and> get_group_pkgs module_handle ''basegroup'' = (Err NameError, None)"
  using do_install_name_error [of "[''base'']" core_handle "[]" "''basegroup''"]
  by simp

text \<open>
  C5. The group \<^verbatim>\<open>basegroup\<close> of the one sync database has the members A, B and C, and B is
  in the conflicts. The call ends in the \<^verbatim>\<open>NameError\<close> before any target is looked up.
\<close>

theorem do_install_group_name_error:
  "do_install module_handle core_handle [''basegroup''] [''B'']
     = (Err NameError, None, core_handle, None)"
  by (simp add: do_install_def module_handle_def)

text \<open>
  Were the global name bound to the engine, the same call would add exactly A and C to the
  transaction, in this order, and return 0.
\<close>

lemma do_install_group_if_bound:
  "do_install (Some core_handle) core_handle [''basegroup''] [''B'']
     = (Ok 0,
        Some (core_handle\<lparr>h_calls := [GetSyncdbs, GetPkg ''core'' ''basegroup'', GetSyncdbs,
                                        ReadGrp ''core'' ''basegroup'']\<rparr>),
        core_handle\<lparr>h_calls := [InitTransaction]\<rparr>,
        Some (quiet_trans\<lparr>t_calls := [AddPkg pkgA, AddPkg pkgC, Prepare, Commit, Release]\<rparr>))"
  by (simp add: do_install_def core_handle_def core_db_def dict_of_def dict_set_def
        get_group_pkgs_def init_transaction_def finalize_def prepare_def commit_def
        release_def add_pkg_def quiet_trans_def pkgA_def pkgB_def pkgC_def)

section \<open>The callbacks\<close>

lemma queue_event_effect:
  assumes "ty \<noteq> ''error''"
  shows "queue_event s c ty tx =
     Return (s\<lparr>emit_log := emit_log s @ [(ty, tx)],
              last_event := (last_event s)(ty \<mapsto> tx),
              callback_queue :=
                (if last_event s ty = Some tx then callback_queue s
                 else offer (callback_queue s) (ty, tx))\<rparr>)"
proof (cases "last_event s ty = Some tx")
  case True
  then have "(last_event s)(ty \<mapsto> tx) = last_event s" by (rule map_upd_triv)
  then show ?thesis using True queue_event_repeat [OF True, of c] by simp
next
  case False
  then show ?thesis using queue_event_plain [OF assms False, of c] by (simp add: offer_def)
qed

lemma truediv_0_100: "truediv 0 100 = Inr 0"
  by (simp add: truediv_def)

lemma truediv_5_100: "truediv 5 100 = Inr (3602879701896397 / 72057594037927936)"
  by code_simp

lemma truediv_30_100: "truediv 30 100 = Inr (5404319552844595 / 18014398509481984)"
  by code_simp

lemma truediv_1_2: "truediv 1 2 = Inr (1 / 2)"
  by code_simp

lemma truediv_1_0: "truediv 1 0 = Inl ZeroDivisionError"
  by (simp add: truediv_def)

lemma cb_progress_new_target:
  assumes "target \<noteq> []"
      and "Some target \<noteq> last_target s \<or> percent < last_percent s"
      and "truediv percent 100 = Inr x"
      and "truediv i n = Inr g"
  shows "cb_progress s target percent n i =
     Return (s\<lparr>last_target := Some target, last_percent := percent,
              emit_log := emit_log s @
                [(''target'', Str (''Installing '' @ target @ '' ('' @ str_int i @ ''/'' @ str_int n @ '')'')),
                 (''percent'', Num x), (''global_percent'', Num g)],
              last_event := (last_event s)
                (''target'' \<mapsto> Str (''Installing '' @ target @ '' ('' @ str_int i @ ''/'' @ str_int n @ '')''),
                 ''percent'' \<mapsto> Num x, ''global_percent'' \<mapsto> Num g),
              callback_queue :=
                (let t = Str (''Installing '' @ target @ '' ('' @ str_int i @ ''/'' @ str_int n @ '')'');
                     q1 = (if last_event s ''target'' = Some t then callback_queue s
                           else offer (callback_queue s) (''target'', t));
                     q2 = (if last_event s ''percent'' = Some (Num x) then q1
                           else offer q1 (''percent'', Num x))
                 in if last_event s ''global_percent'' = Some (Num g) then q2
                    else offer q2 (''global_percent'', Num g))\<rparr>)"
  using assms by (simp add: cb_progress_def queue_event_effect Let_def)

lemma cb_progress_same_target:
  assumes "target \<noteq> []" and "last_target s = Some target" and "\<not> percent < last_percent s"
  shows "cb_progress s target percent n i = Return (s\<lparr>last_percent := percent\<rparr>)"
  using assms by (simp add: cb_progress_def)

lemma cb_progress_abstract:
  assumes "truediv percent 100 = Inr x"
  shows "\<exists>s'. cb_progress s [] percent n i = Return s' \<and> last_percent s' = percent"
  using assms by (simp add: cb_progress_def queue_event_effect)


section \<open>Progress of one target\<close>

text \<open>
  C6, as the code has it. From the initial state, four samples for the target \<^verbatim>\<open>pkgA\<close>
  with the percent values 0, 10, 5 and 80, where the quotients index / total of the first
  and the third sample can be computed. The first and the third sample take the new-target
  branch: each records the target and hands a \<^verbatim>\<open>target\<close>, a \<^verbatim>\<open>percent\<close> and a
  \<^verbatim>\<open>global_percent\<close> event to \<^verbatim>\<open>queue_event\<close>, which records the three texts and puts on the
  queue, room permitting, those that differ from the text last recorded for their type. So
  the first sample puts all three, and the third puts its \<^verbatim>\<open>percent\<close> event always, its
  \<^verbatim>\<open>target\<close> event only if its text differs from the first sample's and its
  \<^verbatim>\<open>global_percent\<close> event only if the quotient differs. The second and the fourth sample
  change nothing but \<^verbatim>\<open>last_percent\<close>. In either mode a call of \<^verbatim>\<open>cb_progress\<close> whose quotients
  can be computed, or that stays on the same target without a drop of the percent value,
  returns and leaves the percent of its sample in \<^verbatim>\<open>last_percent\<close>.
\<close>

theorem cb_progress_pkgA_samples:
  "(truediv i1 n1 = Inr g1 \<and> truediv i3 n3 = Inr g3 \<longrightarrow>
      (\<exists>s1 s3 p5.
          cb_progress (init q) ''pkgA'' 0 n1 i1 = Return s1
        \<and> last_target s1 = Some ''pkgA''
        \<and> last_percent s1 = 0
        \<and> last_event s1 =
            [''target'' \<mapsto> Str (''Installing pkgA ('' @ str_int i1 @ ''/'' @ str_int n1 @ '')''),
             ''percent'' \<mapsto> Num 0,
             ''global_percent'' \<mapsto> Num g1]
        \<and> callback_queue s1 =
            offer (offer (offer q
              (''target'', Str (''Installing pkgA ('' @ str_int i1 @ ''/'' @ str_int n1 @ '')'')))
              (''percent'', Num 0))
              (''global_percent'', Num g1)
        \<and> cb_progress s1 ''pkgA'' 10 n2 i2 = Return (s1\<lparr>last_percent := 10\<rparr>)
        \<and> truediv 5 100 = Inr p5 \<and> p5 \<noteq> 0
        \<and> cb_progress (s1\<lparr>last_percent := 10\<rparr>) ''pkgA'' 5 n3 i3 = Return s3
        \<and> last_target s3 = Some ''pkgA''
        \<and> last_percent s3 = 5
        \<and> last_event s3 =
            [''target'' \<mapsto> Str (''Installing pkgA ('' @ str_int i3 @ ''/'' @ str_int n3 @ '')''),
             ''percent'' \<mapsto> Num p5,
             ''global_percent'' \<mapsto> Num g3]
        \<and> callback_queue s3 =
            (let q1 = (if str_int i3 @ ''/'' @ str_int n3 = str_int i1 @ ''/'' @ str_int n1
                       then callback_queue s1
                       else offer (callback_queue s1)
                              (''target'',
                               Str (''Installing pkgA ('' @ str_int i3 @ ''/'' @ str_int n3 @ '')'')));
                 q2 = offer q1 (''percent'', Num p5)
             in if g3 = g1 then q2 else offer q2 (''global_percent'', Num g3))
        \<and> cb_progress s3 ''pkgA'' 80 n4 i4 = Return (s3\<lparr>last_percent := 80\<rparr>)))
   \<and> ((\<exists>x. truediv percent 100 = Inr x) \<and> (target = [] \<or> (\<exists>g. truediv i n = Inr g))
        \<or> target \<noteq> [] \<and> last_target s = Some target \<and> \<not> percent < last_percent s
       \<longrightarrow> (\<exists>s'. cb_progress s target percent n i = Return s' \<and> last_percent s' = percent))"
proof (intro conjI impI)
  assume g: "truediv i1 n1 = Inr g1 \<and> truediv i3 n3 = Inr g3"
  let ?p5 = "3602879701896397 / 72057594037927936 :: rat"
  let ?t1 = "Str (''Installing '' @ ''pkgA'' @ '' ('' @ str_int i1 @ ''/'' @ str_int n1 @ '')'')"
  let ?t3 = "Str (''Installing '' @ ''pkgA'' @ '' ('' @ str_int i3 @ ''/'' @ str_int n3 @ '')'')"
  have t: "''pkgA'' \<noteq> []" by simp
  define s1 where "s1 = (init q)\<lparr>last_target := Some ''pkgA'', last_percent := 0,
      emit_log := [(''target'', ?t1), (''percent'', Num 0), (''global_percent'', Num g1)],
      last_event := [''target'' \<mapsto> ?t1, ''percent'' \<mapsto> Num 0, ''global_percent'' \<mapsto> Num g1],
      callback_queue := offer (offer (offer q (''target'', ?t1)) (''percent'', Num 0))
                          (''global_percent'', Num g1)\<rparr>"
  have 1: "cb_progress (init q) ''pkgA'' 0 n1 i1 = Return s1"
    using cb_progress_new_target [OF t _ truediv_0_100, of "init q" i1 n1 g1] g
    by (simp add: init_def s1_def del: append.simps)
  have 2: "cb_progress s1 ''pkgA'' 10 n2 i2 = Return (s1\<lparr>last_percent := 10\<rparr>)"
    by (rule cb_progress_same_target) (simp_all add: s1_def)
  let ?s2 = "s1\<lparr>last_percent := 10\<rparr>"
  define s3 where "s3 = ?s2\<lparr>last_target := Some ''pkgA'', last_percent := 5,
      emit_log := emit_log ?s2 @ [(''target'', ?t3), (''percent'', Num ?p5), (''global_percent'', Num g3)],
      last_event := (last_event ?s2)
        (''target'' \<mapsto> ?t3, ''percent'' \<mapsto> Num ?p5, ''global_percent'' \<mapsto> Num g3),
      callback_queue :=
        (let q1 = (if last_event ?s2 ''target'' = Some ?t3 then callback_queue ?s2
                   else offer (callback_queue ?s2) (''target'', ?t3));
             q2 = (if last_event ?s2 ''percent'' = Some (Num ?p5) then q1
                   else offer q1 (''percent'', Num ?p5))
         in if last_event ?s2 ''global_percent'' = Some (Num g3) then q2
            else offer q2 (''global_percent'', Num g3))\<rparr>"
  have 3: "cb_progress ?s2 ''pkgA'' 5 n3 i3 = Return s3"
    using cb_progress_new_target [OF t _ truediv_5_100, of ?s2 i3 n3 g3] g
    by (simp add: s3_def s1_def del: append.simps)
  have 4: "cb_progress s3 ''pkgA'' 80 n4 i4 = Return (s3\<lparr>last_percent := 80\<rparr>)"
    by (rule cb_progress_same_target) (simp_all add: s3_def)
  have le3: "last_event s3 = [''target'' \<mapsto> ?t3, ''percent'' \<mapsto> Num ?p5, ''global_percent'' \<mapsto> Num g3]"
    by (simp add: s3_def s1_def)
  have q3: "callback_queue s3 =
      (let q1 = (if str_int i3 @ ''/'' @ str_int n3 = str_int i1 @ ''/'' @ str_int n1
                 then callback_queue s1
                 else offer (callback_queue s1) (''target'', ?t3));
           q2 = offer q1 (''percent'', Num ?p5)
       in if g3 = g1 then q2 else offer q2 (''global_percent'', Num g3))"
    by (simp add: s3_def s1_def Let_def eq_commute [of g1 g3]
          eq_commute [of "str_int i1 @ CHR ''/'' # str_int n1"])
  show "\<exists>s1 s3 p5.
          cb_progress (init q) ''pkgA'' 0 n1 i1 = Return s1
        \<and> last_target s1 = Some ''pkgA''
        \<and> last_percent s1 = 0
        \<and> last_event s1 =
            [''target'' \<mapsto> Str (''Installing pkgA ('' @ str_int i1 @ ''/'' @ str_int n1 @ '')''),
             ''percent'' \<mapsto> Num 0,
             ''global_percent'' \<mapsto> Num g1]
        \<and> callback_queue s1 =
            offer (offer (offer q
              (''target'', Str (''Installing pkgA ('' @ str_int i1 @ ''/'' @ str_int n1 @ '')'')))
              (''percent'', Num 0))
              (''global_percent'', Num g1)
        \<and> cb_progress s1 ''pkgA'' 10 n2 i2 = Return (s1\<lparr>last_percent := 10\<rparr>)
        \<and> truediv 5 100 = Inr p5 \<and> p5 \<noteq> 0
        \<and> cb_progress (s1\<lparr>last_percent := 10\<rparr>) ''pkgA'' 5 n3 i3 = Return s3
        \<and> last_target s3 = Some ''pkgA''
        \<and> last_percent s3 = 5
        \<and> last_event s3 =
            [''target'' \<mapsto> Str (''Installing pkgA ('' @ str_int i3 @ ''/'' @ str_int n3 @ '')''),
             ''percent'' \<mapsto> Num p5,
             ''global_percent'' \<mapsto> Num g3]
        \<and> callback_queue s3 =
            (let q1 = (if str_int i3 @ ''/'' @ str_int n3 = str_int i1 @ ''/'' @ str_int n1
                       then callback_queue s1
                       else offer (callback_queue s1)
                              (''target'',
                               Str (''Installing pkgA ('' @ str_int i3 @ ''/'' @ str_int n3 @ '')'')));
                 q2 = offer q1 (''percent'', Num p5)
             in if g3 = g1 then q2 else offer q2 (''global_percent'', Num g3))
        \<and> cb_progress s3 ''pkgA'' 80 n4 i4 = Return (s3\<lparr>last_percent := 80\<rparr>)"
    apply (rule exI [of _ s1])
    apply (rule exI [of _ s3])
    apply (rule exI [of _ ?p5])
    apply (intro conjI)
    subgoal using 1 by simp
    subgoal by (simp add: s1_def)
    subgoal by (simp add: s1_def)
    subgoal by (simp add: s1_def)
    subgoal by (simp add: s1_def)
    subgoal using 2 by simp
    subgoal by (rule truediv_5_100)
    subgoal by simp
    subgoal using 3 by simp
    subgoal by (simp add: s3_def)
    subgoal by (simp add: s3_def)
    subgoal using le3 by simp
    subgoal using q3 by simp
    subgoal using 4 by simp
    done
next
  assume a: "(\<exists>x. truediv percent 100 = Inr x) \<and> (target = [] \<or> (\<exists>g. truediv i n = Inr g))
        \<or> target \<noteq> [] \<and> last_target s = Some target \<and> \<not> percent < last_percent s"
  show "\<exists>s'. cb_progress s target percent n i = Return s' \<and> last_percent s' = percent"
  proof (cases "target = []")
    case True
    with a obtain x where "truediv percent 100 = Inr x" by auto
    from cb_progress_abstract [OF this, of s n i] True show ?thesis by simp
  next
    case ne: False
    show ?thesis
    proof (cases "Some target \<noteq> last_target s \<or> percent < last_percent s")
      case True
      with a ne obtain x g where "truediv percent 100 = Inr x" "truediv i n = Inr g" by auto
      from cb_progress_new_target [OF ne True this] show ?thesis by simp
    next
      case False
      then have "last_target s = Some target" "\<not> percent < last_percent s" by auto
      from cb_progress_same_target [OF ne this, of n i] show ?thesis by simp
    qed
  qed
qed


theorem cb_progress_pkgA_samples_witness:
  "truediv 1 2 = Inr (1 / 2)
   \<and> callback_queue (state_of
        (cb_progress (init \<lparr>maxsize = 0, items = [], taken = []\<rparr>) ''pkgA'' 0 2 1))
       = \<lparr>maxsize = 0,
          items = [(''target'', Str ''Installing pkgA (1/2)''), (''percent'', Num 0),
                   (''global_percent'', Num (1 / 2))],
          taken = []\<rparr>
   \<and> truediv 5 100 = Inr (3602879701896397 / 72057594037927936)
   \<and> last_percent (state_of
        (cb_progress (init \<lparr>maxsize = 0, items = [], taken = []\<rparr>) ''pkgA'' 5 2 1)) = 5"
  using cb_progress_pkgA_samples
          [of 1 2 "1 / 2" 1 2 "1 / 2" "\<lparr>maxsize = 0, items = [], taken = []\<rparr>" 2 1 2 1
              5 "''pkgA''" 1 2 "init \<lparr>maxsize = 0, items = [], taken = []\<rparr>"]
  by (simp add: cb_progress_def queue_event_def put_nowait_def full_def init_def frame_def
        str_int_def digits.simps truediv_0_100 truediv_5_100 truediv_1_2)

text \<open>
  The statement of the specification fails twice. With index 1 and total 2 throughout,
  the third sample puts no \<^verbatim>\<open>target\<close> event: after three samples the queue holds the
  three events of the first and one more \<^verbatim>\<open>percent\<close> event. And a sample with total 0 ends in
  \<^verbatim>\<open>ZeroDivisionError\<close> with \<^verbatim>\<open>last_percent\<close> at 0, not at the percent 30 of the sample.
\<close>

theorem cb_progress_pkgA_counterexample:
  "delivered (callback_queue (state_of
     (cb_progress
        (state_of (cb_progress
           (state_of (cb_progress (init \<lparr>maxsize = 0, items = [], taken = []\<rparr>) ''pkgA'' 0 2 1))
           ''pkgA'' 10 2 1))
        ''pkgA'' 5 2 1)))
   = [(''target'', Str ''Installing pkgA (1/2)''),
      (''percent'', Num 0),
      (''global_percent'', Num (1 / 2)),
      (''percent'', Num (3602879701896397 / 72057594037927936))]
   \<and> exception_of (cb_progress (init \<lparr>maxsize = 0, items = [], taken = []\<rparr>) ''pkgA'' 30 0 1)
       = Some ZeroDivisionError
   \<and> last_percent (state_of
        (cb_progress (init \<lparr>maxsize = 0, items = [], taken = []\<rparr>) ''pkgA'' 30 0 1)) = 0"
  by (simp add: cb_progress_def queue_event_def put_nowait_def full_def init_def frame_def
        str_int_def digits.simps delivered_def truediv_0_100 truediv_5_100 truediv_1_2
        truediv_30_100 truediv_1_0)

section \<open>The gate of the download callback\<close>

lemma dl_wf_init: "dl_wf (init q)"
  by (simp add: dl_wf_def init_def)

lemma dl_wf_base:
  assumes "dl_wf s"
  shows "\<exists>l. (if Some filename \<noteq> last_dl_filename s \<or> last_dl_total s \<noteq> Some tot
              then Some 0 else last_dl_progress s) = Some l"
proof (cases "Some filename \<noteq> last_dl_filename s \<or> last_dl_total s \<noteq> Some tot")
  case True
  then show ?thesis by simp
next
  case False
  then have "last_dl_filename s = Some filename" by simp
  then have "last_dl_progress s \<noteq> None" using assms by (auto simp: dl_wf_def)
  with False show ?thesis by auto
qed

text \<open>
  C8, as the code has it. On a sample of \<^verbatim>\<open>cb_dl\<close>, let \<open>l\<close> be the progress value recorded
  once a new file has been detected (0 for a new file, the recorded value otherwise), \<open>p\<close>
  the progress computed for the sample and \<open>a\<close> the description of the sample. Exactly when
  \<open>l < p\<close> the callback records \<open>p\<close> and hands \<open>a\<close> as \<^verbatim>\<open>action\<close> and \<open>p\<close> as \<^verbatim>\<open>percent\<close> to
  \<^verbatim>\<open>queue_event\<close>; a new file hands \<open>a\<close> as \<^verbatim>\<open>action\<close> whether or not \<open>l < p\<close>; otherwise nothing
  is handed over and \<open>l\<close> stays recorded. \<^verbatim>\<open>queue_event\<close> records what it is handed, and the
  queue receives, room permitting, \<open>a\<close> once if it differs from the action text last
  recorded, and \<open>p\<close> if it differs from the percent value last recorded.
\<close>

theorem cb_dl_gate:
  assumes "dl_wf s" and "dl_progress log_scale tx tot = Inr p"
  shows "\<exists>l s'.
           (if Some filename \<noteq> last_dl_filename s \<or> last_dl_total s \<noteq> Some tot
            then Some 0 else last_dl_progress s) = Some l
         \<and> cb_dl log_scale s filename tx tot = Return s'
         \<and> last_dl_progress s' = Some (if l < p then p else l)
         \<and> last_event s' =
             (if l < p
              then (last_event s)(''action'' \<mapsto> dl_text filename tx tot,
                                  ''percent'' \<mapsto> Num (of_int p))
              else if Some filename \<noteq> last_dl_filename s \<or> last_dl_total s \<noteq> Some tot
              then (last_event s)(''action'' \<mapsto> dl_text filename tx tot)
              else last_event s)
         \<and> callback_queue s' =
             (let q1 = (if (Some filename \<noteq> last_dl_filename s \<or> last_dl_total s \<noteq> Some tot
                            \<or> l < p)
                           \<and> last_event s ''action'' \<noteq> Some (dl_text filename tx tot)
                        then offer (callback_queue s) (''action'', dl_text filename tx tot)
                        else callback_queue s)
              in if l < p \<and> last_event s ''percent'' \<noteq> Some (Num (of_int p))
                 then offer q1 (''percent'', Num (of_int p))
                 else q1)
         \<and> drop (length (emit_log s)) (emit_log s') =
               (if Some filename \<noteq> last_dl_filename s \<or> last_dl_total s \<noteq> Some tot
                then [(''action'', dl_text filename tx tot)] else [])
             @ (if l < p
                then [(''action'', dl_text filename tx tot), (''percent'', Num (of_int p))]
                else [])"
proof -
  from dl_wf_base [OF assms(1), of filename tot] obtain l where
    l: "(if Some filename \<noteq> last_dl_filename s \<or> last_dl_total s \<noteq> Some tot
         then Some 0 else last_dl_progress s) = Some l" ..
  show ?thesis
  proof (cases "Some filename \<noteq> last_dl_filename s \<or> last_dl_total s \<noteq> Some tot")
    case True
    with l have l0: "l = 0" by simp
    show ?thesis
      apply (rule exI [of _ l])
      using True l0 assms(2)
      by (cases "0 < p") (simp_all add: cb_dl_def queue_event_effect Let_def)
  next
    case False
    with l have lp: "last_dl_progress s = Some l" by simp
    from False have f: "last_dl_filename s = Some filename" "last_dl_total s = Some tot"
      by simp_all
    show ?thesis
      apply (rule exI [of _ l])
      using f lp assms(2)
      by (cases "l < p") (simp_all add: cb_dl_def queue_event_effect Let_def)
  qed
qed


theorem cb_dl_gate_witness:
  "dl_wf (init \<lparr>maxsize = 0, items = [], taken = []\<rparr>)
   \<and> dl_progress (\<lambda>x. 0) 10 40 = Inr 6
   \<and> callback_queue (state_of
        (cb_dl (\<lambda>x. 0) (init \<lparr>maxsize = 0, items = [], taken = []\<rparr>) ''f'' 10 40))
       = \<lparr>maxsize = 0,
          items = [(''action'', Str ''Download f: 10/40''), (''percent'', Num 6)],
          taken = []\<rparr>
   \<and> last_dl_progress (state_of
        (cb_dl (\<lambda>x. 0) (init \<lparr>maxsize = 0, items = [], taken = []\<rparr>) ''f'' 10 40)) = Some 6"
  using cb_dl_gate [of "init \<lparr>maxsize = 0, items = [], taken = []\<rparr>" "\<lambda>x. 0" 10 40 6 "''f''"]
  by (simp add: cb_dl_def dl_progress_def dl_text_def queue_event_def put_nowait_def full_def
        init_def frame_def str_int_def digits.simps dl_wf_def)

text \<open>
  The statement of the specification fails twice. The first sample of a file with nothing
  transferred computes the progress 0, which is not greater than the recorded 0, and still puts an
  \<^verbatim>\<open>action\<close> event. And when a second file reaches the progress 6 that the first file
  reached, its sample passes the gate and records 6, but no \<^verbatim>\<open>percent\<close> event is put: the
  queue holds the \<^verbatim>\<open>percent\<close> event of the first file only.
\<close>

theorem cb_dl_gate_counterexample:
  "dl_progress (\<lambda>x. 0) 0 40 = Inr 0
   \<and> delivered (callback_queue (state_of
        (cb_dl (\<lambda>x. 0) (init \<lparr>maxsize = 0, items = [], taken = []\<rparr>) ''f'' 0 40)))
       = [(''action'', Str ''Download f: 0/40'')]
   \<and> dl_progress (\<lambda>x. 0) 10 40 = Inr 6
   \<and> last_dl_progress (state_of
        (cb_dl (\<lambda>x. 0)
           (state_of (cb_dl (\<lambda>x. 0) (init \<lparr>maxsize = 0, items = [], taken = []\<rparr>) ''f'' 10 40))
           ''g'' 10 40)) = Some 6
   \<and> delivered (callback_queue (state_of
        (cb_dl (\<lambda>x. 0)
           (state_of (cb_dl (\<lambda>x. 0) (init \<lparr>maxsize = 0, items = [], taken = []\<rparr>) ''f'' 10 40))
           ''g'' 10 40)))
       = [(''action'', Str ''Download f: 10/40''), (''percent'', Num 6),
          (''action'', Str ''Download g: 10/40'')]"
  by (simp add: cb_dl_def dl_progress_def dl_text_def queue_event_def put_nowait_def full_def
        init_def frame_def str_int_def digits.simps delivered_def)

text \<open>Calls of \<^verbatim>\<open>cb_dl\<close> keep a progress value recorded with the file name.\<close>

lemma cb_dl_keeps_wf:
  assumes "dl_wf s" and "cb_dl log_scale s filename tx tot = Return s'"
  shows "dl_wf s'"
proof (cases "Some filename \<noteq> last_dl_filename s \<or> last_dl_total s \<noteq> Some tot")
  case True
  then show ?thesis
    using assms(2)
    by (auto simp: cb_dl_def queue_event_effect dl_wf_def Let_def split: sum.splits if_splits)
next
  case False
  then have f: "last_dl_filename s = Some filename" "last_dl_total s = Some tot" by simp_all
  then show ?thesis
    using assms
    by (auto simp: cb_dl_def queue_event_effect dl_wf_def Let_def
             split: sum.splits option.splits if_splits)
qed

end
